theory Spec2Isabelle
  imports Complex_Main
begin

section \<open>The spend-permission action component\<close>

text \<open>
  A shallow embedding of \<^verbatim>\<open>RequestSpendPermissionAction\<close>
  (\<^verbatim>\<open>components/actions/request-spend-permission.tsx\<close>): the component state held by
  its \<^verbatim>\<open>useState\<close> cells, the two \<^verbatim>\<open>useEffect\<close> bodies, the asynchronous
  \<^verbatim>\<open>handleRequest\<close> callback and the button that triggers it.
\<close>

subsection \<open>JavaScript values\<close>

text \<open>
  A JavaScript number, as far as the component looks at it: the component only tests
  numbers for truthiness, compares them as effect dependencies and passes them on.
  \<open>Finite 0\<close> is \<open>+0\<close>; finite values are kept as rationals.
\<close>

datatype jsnumber = NaN | NegZero | Infinity | NegInfinity | Finite rat

definition ToBoolean_number :: "jsnumber \<Rightarrow> bool" where
  "ToBoolean_number n = (n \<noteq> NaN \<and> n \<noteq> NegZero \<and> n \<noteq> Finite 0)"

definition ToBoolean_string :: "string \<Rightarrow> bool" where
  "ToBoolean_string s = (s \<noteq> [])"

text \<open>The operator \<^verbatim>\<open>a || b\<close> on numbers.\<close>

definition or_else :: "jsnumber \<Rightarrow> jsnumber \<Rightarrow> jsnumber" where
  "or_else a b = (if ToBoolean_number a then a else b)"

text \<open>
  A thrown value, as the \<^verbatim>\<open>catch\<close> block sees it: an instance of \<^verbatim>\<open>Error\<close>
  with its \<^verbatim>\<open>message\<close>, or anything else.
\<close>

datatype js_thrown = Error_instance string | Non_error

text \<open>The three ways an awaited promise can behave.\<close>

datatype 'r settled = Resolved 'r | Rejected js_thrown | Pending

subsection \<open>The built-in \<^verbatim>\<open>BigInt\<close> on strings\<close>

text \<open>
  \<^verbatim>\<open>BigInt(str)\<close> follows ECMA-262 \<^verbatim>\<open>StringToBigInt\<close>: white space is trimmed, the
  empty text is \<open>0\<close>, and the rest must be a decimal integer with an optional sign, or an
  unsigned binary, octal or hexadecimal literal; anything else is a \<^verbatim>\<open>SyntaxError\<close>.
  Strings are sequences of code units below 256, so the white space characters are
  TAB, LF, VT, FF, CR, SP and NBSP.
\<close>

definition StrWhiteSpaceChar :: "char \<Rightarrow> bool" where
  "StrWhiteSpaceChar c = ((of_char c :: nat) \<in> {9, 10, 11, 12, 13, 32, 160})"

definition trim :: "string \<Rightarrow> string" where
  "trim s = rev (dropWhile StrWhiteSpaceChar (rev (dropWhile StrWhiteSpaceChar s)))"

definition digit_of :: "nat \<Rightarrow> char \<Rightarrow> nat option" where
  "digit_of b c =
     (let n = (of_char c :: nat);
          v = (if 48 \<le> n \<and> n \<le> 57 then Some (n - 48)
               else if 97 \<le> n \<and> n \<le> 102 then Some (n - 87)
               else if 65 \<le> n \<and> n \<le> 70 then Some (n - 55)
               else None)
      in case v of None \<Rightarrow> None | Some d \<Rightarrow> if d < b then Some d else None)"

fun digits_value :: "nat \<Rightarrow> string \<Rightarrow> nat \<Rightarrow> nat option" where
  "digits_value b [] acc = Some acc"
| "digits_value b (c # cs) acc =
     (case digit_of b c of None \<Rightarrow> None | Some d \<Rightarrow> digits_value b cs (acc * b + d))"

definition parse_digits :: "nat \<Rightarrow> string \<Rightarrow> nat option" where
  "parse_digits b cs = (if cs = [] then None else digits_value b cs 0)"

definition DecimalDigit :: "char \<Rightarrow> bool" where
  "DecimalDigit c = (48 \<le> (of_char c :: nat) \<and> (of_char c :: nat) \<le> 57)"

definition SignedInteger :: "string \<Rightarrow> int option" where
  "SignedInteger cs =
     (case cs of
        [] \<Rightarrow> None
      | c # ds \<Rightarrow>
          if c = CHR ''+'' then map_option int (parse_digits 10 ds)
          else if c = CHR ''-'' then map_option (\<lambda>n. - int n) (parse_digits 10 ds)
          else map_option int (parse_digits 10 cs))"

definition NonDecimalIntegerLiteral :: "string \<Rightarrow> int option option" where
  "NonDecimalIntegerLiteral cs =
     (case cs of
        c0 # c1 # ds \<Rightarrow>
          if c0 \<noteq> CHR ''0'' then None
          else if c1 = CHR ''b'' \<or> c1 = CHR ''B'' then Some (map_option int (parse_digits 2 ds))
          else if c1 = CHR ''o'' \<or> c1 = CHR ''O'' then Some (map_option int (parse_digits 8 ds))
          else if c1 = CHR ''x'' \<or> c1 = CHR ''X'' then Some (map_option int (parse_digits 16 ds))
          else None
      | _ \<Rightarrow> None)"

definition StringToBigInt :: "string \<Rightarrow> int option" where
  "StringToBigInt str =
     (let t = trim str
      in if t = [] then Some 0
         else case NonDecimalIntegerLiteral t of
                Some r \<Rightarrow> r
              | None \<Rightarrow> SignedInteger t)"

subsection \<open>What the component imports\<close>

text \<open>
  The argument object of \<^verbatim>\<open>requestSpendPermission\<close>.
\<close>

record 'p params =
  arg_account :: string
  arg_spender :: string
  arg_token :: string
  arg_chainId :: jsnumber
  arg_allowance :: int
  arg_periodInDays :: jsnumber
  arg_provider :: 'p

text \<open>
  The functions the component calls and does not define: the built-ins \<^verbatim>\<open>Number\<close>,
  \<^verbatim>\<open>String\<close> and \<^verbatim>\<open>JSON.stringify\<close> (with its \<^verbatim>\<open>space\<close> argument), the message the
  engine gives the \<^verbatim>\<open>SyntaxError\<close> of \<^verbatim>\<open>BigInt\<close>, and the SDK's \<^verbatim>\<open>sdk.getProvider\<close>
  and \<^verbatim>\<open>requestSpendPermission\<close>. Each may throw where JavaScript lets it; the promise
  of \<^verbatim>\<open>requestSpendPermission\<close> may resolve, reject or stay pending.
\<close>

record ('r, 'p) env =
  Number :: "string \<Rightarrow> jsnumber"
  String :: "jsnumber \<Rightarrow> string"
  SyntaxError_message :: "string \<Rightarrow> string"
  JSON_stringify :: "'r \<Rightarrow> nat \<Rightarrow> js_thrown + string"
  getProvider :: "js_thrown + 'p"
  requestSpendPermission :: "'p params \<Rightarrow> 'r settled"

definition BigInt :: "('r, 'p) env \<Rightarrow> string \<Rightarrow> js_thrown + int" where
  "BigInt E str =
     (case StringToBigInt str of
        None \<Rightarrow> Inl (Error_instance (SyntaxError_message E str))
      | Some n \<Rightarrow> Inr n)"

text \<open>The external calls an invocation makes, in order.\<close>

datatype 'p sdk_call = Call_getProvider | Call_requestSpendPermission "'p params"

subsection \<open>Component state\<close>

definition DEFAULT_SPENDER :: string where
  "DEFAULT_SPENDER = ''0xd8dA6BF26964aF9D7eEd9e03E53415D37aA96045''"

definition DEFAULT_TOKEN :: string where
  "DEFAULT_TOKEN = ''0x833589fCD6eDb6E08f4c7C32D4f71b54bdA02913''"

text \<open>\<^verbatim>\<open>base.id\<close> of \<^verbatim>\<open>viem/chains\<close>.\<close>

definition base_id :: jsnumber where
  "base_id = Finite 8453"

text \<open>What \<^verbatim>\<open>useAccount\<close> and \<^verbatim>\<open>useChainId\<close> return at a render.\<close>

record wagmi =
  address :: "string option"
  isConnected :: bool
  connectedChainId :: jsnumber

record state =
  account :: string
  spender :: string
  token :: string
  chainId :: string
  allowance :: string
  periodInDays :: string
  permission :: "string option"
  error :: "string option"
  loading :: bool

text \<open>The initial values of the \<^verbatim>\<open>useState\<close> cells.\<close>

definition initial_state :: "('r, 'p) env \<Rightarrow> wagmi \<Rightarrow> state" where
  "initial_state E w =
     \<lparr> account = (case address w of None \<Rightarrow> [] | Some a \<Rightarrow> a),
       spender = DEFAULT_SPENDER,
       token = DEFAULT_TOKEN,
       chainId = String E (or_else (connectedChainId w) base_id),
       allowance = ''1000000'',
       periodInDays = ''30'',
       permission = None,
       error = None,
       loading = False \<rparr>"

text \<open>The bodies of the two effects.\<close>

definition address_effect :: "wagmi \<Rightarrow> state \<Rightarrow> state" where
  "address_effect w s =
     (case address w of
        None \<Rightarrow> s
      | Some a \<Rightarrow> if ToBoolean_string a then s\<lparr>account := a\<rparr> else s)"

definition chainId_effect :: "('r, 'p) env \<Rightarrow> wagmi \<Rightarrow> state \<Rightarrow> state" where
  "chainId_effect E w s =
     (if ToBoolean_number (connectedChainId w)
      then s\<lparr>chainId := String E (connectedChainId w)\<rparr> else s)"

text \<open>
  Both effects run after the first render; after a later render an effect runs when
  its dependency differs from the previous render's.
\<close>

definition mount :: "('r, 'p) env \<Rightarrow> wagmi \<Rightarrow> state" where
  "mount E w = chainId_effect E w (address_effect w (initial_state E w))"

definition rerender :: "('r, 'p) env \<Rightarrow> wagmi \<Rightarrow> wagmi \<Rightarrow> state \<Rightarrow> state" where
  "rerender E w w' s =
     (let s1 = (if address w' \<noteq> address w then address_effect w' s else s)
      in if connectedChainId w' \<noteq> connectedChainId w then chainId_effect E w' s1 else s1)"

subsection \<open>The button\<close>

definition button_disabled :: "wagmi \<Rightarrow> state \<Rightarrow> bool" where
  "button_disabled w s = (\<not> isConnected w \<or> loading s \<or> \<not> ToBoolean_string (account s))"

definition button_label :: "wagmi \<Rightarrow> state \<Rightarrow> string" where
  "button_label w s =
     (if loading s then ''Requesting...''
      else if isConnected w then ''Request Spend Permission''
      else ''Connect wallet to continue'')"

text \<open>
  The two result panels, \<^verbatim>\<open>{permission && ...}\<close> and \<^verbatim>\<open>{error && ...}\<close>: the text
  shown, \<open>None\<close> when the panel is not rendered.
\<close>

definition permission_panel :: "state \<Rightarrow> string option" where
  "permission_panel s =
     (case permission s of
        None \<Rightarrow> None
      | Some p \<Rightarrow> if ToBoolean_string p then Some p else None)"

definition error_panel :: "state \<Rightarrow> string option" where
  "error_panel s =
     (case error s of
        None \<Rightarrow> None
      | Some m \<Rightarrow> if ToBoolean_string m then Some m else None)"

subsection \<open>\<^verbatim>\<open>handleRequest\<close>\<close>

text \<open>The three \<^verbatim>\<open>set\<close> calls before the \<^verbatim>\<open>try\<close>.\<close>

definition begin_request :: "state \<Rightarrow> state" where
  "begin_request s = s\<lparr>loading := True, error := None, permission := None\<rparr>"

text \<open>The three parsed constants at the head of the \<^verbatim>\<open>try\<close> block.\<close>

definition parsedChainId :: "('r, 'p) env \<Rightarrow> state \<Rightarrow> jsnumber" where
  "parsedChainId E s = or_else (Number E (chainId s)) base_id"

definition parsedAllowance :: "('r, 'p) env \<Rightarrow> state \<Rightarrow> js_thrown + int" where
  "parsedAllowance E s =
     (if ToBoolean_string (allowance s) then BigInt E (allowance s) else Inr 0)"

definition parsedPeriod :: "('r, 'p) env \<Rightarrow> state \<Rightarrow> jsnumber" where
  "parsedPeriod E s = or_else (Number E (periodInDays s)) (Finite 0)"

definition parse_params :: "('r, 'p) env \<Rightarrow> state \<Rightarrow> js_thrown + (jsnumber \<times> int \<times> jsnumber)" where
  "parse_params E s =
     (let c = parsedChainId E s
      in case parsedAllowance E s of
           Inl e \<Rightarrow> Inl e
         | Inr a \<Rightarrow> Inr (c, a, parsedPeriod E s))"

text \<open>
  The \<^verbatim>\<open>try\<close> block up to the \<^verbatim>\<open>await\<close>: the parsing, then the argument object, whose
  last field calls \<^verbatim>\<open>sdk.getProvider()\<close>, then the call of \<^verbatim>\<open>requestSpendPermission\<close>.
  The result is the external calls made and either the value thrown or the argument
  of the call now awaited.
\<close>

definition request_params :: "state \<Rightarrow> jsnumber \<Rightarrow> int \<Rightarrow> jsnumber \<Rightarrow> 'p \<Rightarrow> 'p params" where
  "request_params s c a d prov =
     \<lparr> arg_account = account s, arg_spender = spender s, arg_token = token s,
       arg_chainId = c, arg_allowance = a, arg_periodInDays = d, arg_provider = prov \<rparr>"

definition before_await ::
  "('r, 'p) env \<Rightarrow> state \<Rightarrow> 'p sdk_call list \<times> (js_thrown + 'p params)" where
  "before_await E s =
     (case parse_params E s of
        Inl e \<Rightarrow> ([], Inl e)
      | Inr (c, a, d) \<Rightarrow>
          (case getProvider E of
             Inl e \<Rightarrow> ([Call_getProvider], Inl e)
           | Inr prov \<Rightarrow>
               (let ps = request_params s c a d prov
                in ([Call_getProvider, Call_requestSpendPermission ps], Inr ps))))"

text \<open>
  The \<^verbatim>\<open>try\<close> block from the \<^verbatim>\<open>await\<close> on: \<open>None\<close> while the promise stays pending,
  otherwise the value thrown or the string handed to \<^verbatim>\<open>setPermission\<close>.
\<close>

definition after_await :: "('r, 'p) env \<Rightarrow> 'r settled \<Rightarrow> (js_thrown + string) option" where
  "after_await E out =
     (case out of
        Resolved r \<Rightarrow> Some (JSON_stringify E r 2)
      | Rejected e \<Rightarrow> Some (Inl e)
      | Pending \<Rightarrow> None)"

definition catch_message :: "js_thrown \<Rightarrow> string" where
  "catch_message err =
     (case err of
        Error_instance m \<Rightarrow> m
      | Non_error \<Rightarrow> ''Failed to request spend permission'')"

text \<open>
  The end of the invocation: \<^verbatim>\<open>setPermission\<close> or the \<^verbatim>\<open>catch\<close> block, then the
  \<^verbatim>\<open>finally\<close> block.
\<close>

definition finish_request :: "js_thrown + string \<Rightarrow> state \<Rightarrow> state" where
  "finish_request res s =
     (case res of
        Inr str \<Rightarrow> s\<lparr>permission := Some str, loading := False\<rparr>
      | Inl err \<Rightarrow> s\<lparr>error := Some (catch_message err), loading := False\<rparr>)"

text \<open>
  The \<^verbatim>\<open>try\<close> block as a whole: the external calls made, and \<open>None\<close> when the awaited
  promise never settles.
\<close>

definition try_block ::
  "('r, 'p) env \<Rightarrow> state \<Rightarrow> 'p sdk_call list \<times> (js_thrown + string) option" where
  "try_block E s =
     (case before_await E s of
        (calls, Inl e) \<Rightarrow> (calls, Some (Inl e))
      | (calls, Inr ps) \<Rightarrow> (calls, after_await E (requestSpendPermission E ps)))"

text \<open>
  One invocation run to its end with nothing else happening in between: the external
  calls made and the state it leaves, \<open>None\<close> when it never completes.
\<close>

definition handleRequest ::
  "('r, 'p) env \<Rightarrow> state \<Rightarrow> 'p sdk_call list \<times> state option" where
  "handleRequest E s =
     (case try_block E s of
        (calls, None) \<Rightarrow> (calls, None)
      | (calls, Some res) \<Rightarrow> (calls, Some (finish_request res (begin_request s))))"

subsection \<open>The component as a transition system\<close>

text \<open>
  Between a click and the settling of the promise it awaits, other events can reach the
  component. A configuration holds what the hooks returned at the last render, the
  state cells, and the arguments of the \<^verbatim>\<open>requestSpendPermission\<close> calls that have
  started and not settled.
\<close>

record 'p config =
  hooks :: wagmi
  st :: state
  pending :: "'p params list"

text \<open>
  The events: an edit of one of the six inputs, a change of what the wagmi hooks
  return, a click on the button, and the settling of the \<open>i\<close>-th pending call.
\<close>

datatype 'r event =
    Edit_account string
  | Edit_spender string
  | Edit_token string
  | Edit_chainId string
  | Edit_periodInDays string
  | Edit_allowance string
  | Wallet wagmi
  | Click
  | Settle nat "'r settled"

text \<open>
  What an event does when the component has rendered since the event before it, so
  that the button and the callback on screen are those of the current cells; \<open>None\<close>
  when the event cannot happen. A click reaches \<^verbatim>\<open>handleRequest\<close> only while the
  button is enabled; the invocation then runs up to its \<^verbatim>\<open>await\<close>, or to its end when
  something throws before that.
\<close>

definition fire :: "('r, 'p) env \<Rightarrow> 'r event \<Rightarrow> 'p config \<Rightarrow> 'p config option" where
  "fire E ev c =
     (case ev of
        Edit_account v \<Rightarrow> Some (c\<lparr>st := (st c)\<lparr>account := v\<rparr>\<rparr>)
      | Edit_spender v \<Rightarrow> Some (c\<lparr>st := (st c)\<lparr>spender := v\<rparr>\<rparr>)
      | Edit_token v \<Rightarrow> Some (c\<lparr>st := (st c)\<lparr>token := v\<rparr>\<rparr>)
      | Edit_chainId v \<Rightarrow> Some (c\<lparr>st := (st c)\<lparr>chainId := v\<rparr>\<rparr>)
      | Edit_periodInDays v \<Rightarrow> Some (c\<lparr>st := (st c)\<lparr>periodInDays := v\<rparr>\<rparr>)
      | Edit_allowance v \<Rightarrow> Some (c\<lparr>st := (st c)\<lparr>allowance := v\<rparr>\<rparr>)
      | Wallet w' \<Rightarrow> Some (c\<lparr>hooks := w', st := rerender E (hooks c) w' (st c)\<rparr>)
      | Click \<Rightarrow>
          if button_disabled (hooks c) (st c) then None
          else (case before_await E (st c) of
                  (calls, Inl e) \<Rightarrow>
                    Some (c\<lparr>st := finish_request (Inl e) (begin_request (st c))\<rparr>)
                | (calls, Inr ps) \<Rightarrow>
                    Some (c\<lparr>st := begin_request (st c), pending := pending c @ [ps]\<rparr>))
      | Settle i out \<Rightarrow>
          if i < length (pending c)
          then (case after_await E out of
                  None \<Rightarrow> None
                | Some res \<Rightarrow>
                    Some (c\<lparr>st := finish_request res (st c),
                            pending := take i (pending c) @ drop (Suc i) (pending c)\<rparr>))
          else None)"

definition mounted :: "('r, 'p) env \<Rightarrow> wagmi \<Rightarrow> 'p config" where
  "mounted E w = \<lparr> hooks = w, st = mount E w, pending = [] \<rparr>"

inductive reachable :: "('r, 'p) env \<Rightarrow> 'p config \<Rightarrow> bool" for E :: "('r, 'p) env" where
  reachable_mounted: "reachable E (mounted E w)"
| reachable_fire: "reachable E c \<Longrightarrow> fire E ev c = Some c' \<Longrightarrow> reachable E c'"

text \<open>What holds of every reachable configuration.\<close>

definition request_invariant :: "'p config \<Rightarrow> bool" where
  "request_invariant c =
     (length (pending c) \<le> 1
      \<and> (pending c = [] \<or> (loading (st c) \<and> permission (st c) = None \<and> error (st c) = None))
      \<and> (permission (st c) = None \<or> error (st c) = None))"

definition is_requestSpendPermission :: "'p sdk_call \<Rightarrow> bool" where
  "is_requestSpendPermission call =
     (case call of Call_getProvider \<Rightarrow> False | Call_requestSpendPermission ps \<Rightarrow> True)"

subsection \<open>Events between two renders\<close>

text \<open>
  The button's \<^verbatim>\<open>disabled\<close> attribute and the \<^verbatim>\<open>handleRequest\<close> closure are those of
  the last render, and \<^verbatim>\<open>handleRequest\<close> itself tests nothing. A screen keeps the
  cells as they were at the last render beside the configuration; a render is an event
  of its own. A click is then guarded by the rendered cells and reads the form fields
  from them, while its \<^verbatim>\<open>set\<close> calls act on the current cells. A change of what the
  wallet hooks return comes with a render.
\<close>

datatype 'r ui_event = Event "'r event" | Render

record 'p screen =
  live :: "'p config"
  rendered :: state

definition dispatch :: "('r, 'p) env \<Rightarrow> 'r ui_event \<Rightarrow> 'p screen \<Rightarrow> 'p screen option" where
  "dispatch E uev u =
     (case uev of
        Render \<Rightarrow> Some (u\<lparr>rendered := st (live u)\<rparr>)
      | Event ev \<Rightarrow>
          (case ev of
             Click \<Rightarrow>
               if button_disabled (hooks (live u)) (rendered u) then None
               else (case before_await E (rendered u) of
                       (calls, Inl e) \<Rightarrow>
                         Some (u\<lparr>live := (live u)
                                 \<lparr>st := finish_request (Inl e) (begin_request (st (live u)))\<rparr>\<rparr>)
                     | (calls, Inr ps) \<Rightarrow>
                         Some (u\<lparr>live := (live u)
                                 \<lparr>st := begin_request (st (live u)),
                                  pending := pending (live u) @ [ps]\<rparr>\<rparr>))
           | Wallet w' \<Rightarrow>
               (case fire E ev (live u) of
                  None \<Rightarrow> None
                | Some c' \<Rightarrow> Some \<lparr> live = c', rendered = st c' \<rparr>)
           | _ \<Rightarrow>
               (case fire E ev (live u) of
                  None \<Rightarrow> None
                | Some c' \<Rightarrow> Some (u\<lparr>live := c'\<rparr>))))"

definition mounted_screen :: "('r, 'p) env \<Rightarrow> wagmi \<Rightarrow> 'p screen" where
  "mounted_screen E w = \<lparr> live = mounted E w, rendered = mount E w \<rparr>"

inductive displayed :: "('r, 'p) env \<Rightarrow> 'p screen \<Rightarrow> bool" for E :: "('r, 'p) env" where
  displayed_mounted: "displayed E (mounted_screen E w)"
| displayed_dispatch: "displayed E u \<Longrightarrow> dispatch E uev u = Some u' \<Longrightarrow> displayed E u'"

subsection \<open>A sample environment\<close>

text \<open>
  For running the model on concrete inputs: an environment whose \<^verbatim>\<open>Number\<close> reads
  plain decimal digit strings (and the empty string as \<open>0\<close>), whose \<^verbatim>\<open>String\<close> prints
  the two chain ids used below, whose SDK hands out a provider, whose response is
  stood for by its JSON text, and whose promise behaves as \<open>out\<close> says. On the inputs it
  is run on it answers as a JavaScript engine does.
\<close>

definition sample_Number :: "string \<Rightarrow> jsnumber" where
  "sample_Number s =
     (if s = [] then Finite 0
      else case parse_digits 10 s of None \<Rightarrow> NaN | Some n \<Rightarrow> Finite (of_nat n))"

definition sample_String :: "jsnumber \<Rightarrow> string" where
  "sample_String n =
     (if n = Finite 8453 then ''8453'' else if n = Finite 1 then ''1'' else ''NaN'')"

definition sample_env :: "string settled \<Rightarrow> (string, unit) env" where
  "sample_env out =
     \<lparr> Number = sample_Number,
       String = sample_String,
       SyntaxError_message = (\<lambda>str. ''Cannot convert '' @ str @ '' to a BigInt''),
       JSON_stringify = (\<lambda>r space. Inr r),
       getProvider = Inr (),
       requestSpendPermission = (\<lambda>ps. out) \<rparr>"

definition sample_wagmi :: wagmi where
  "sample_wagmi = \<lparr> address = Some ''0xabc'', isConnected = True, connectedChainId = Finite 8453 \<rparr>"

definition sample_disconnected :: wagmi where
  "sample_disconnected = \<lparr> address = None, isConnected = False, connectedChainId = Finite 8453 \<rparr>"

definition sample_state :: state where
  "sample_state =
     \<lparr> account = ''0xabc'', spender = DEFAULT_SPENDER, token = DEFAULT_TOKEN,
       chainId = ''8453'', allowance = ''1000000'', periodInDays = ''30'',
       permission = None, error = None, loading = False \<rparr>"

definition sample_params :: "unit params" where
  "sample_params =
     \<lparr> arg_account = ''0xabc'', arg_spender = DEFAULT_SPENDER, arg_token = DEFAULT_TOKEN,
       arg_chainId = Finite 8453, arg_allowance = 1000000, arg_periodInDays = Finite 30,
       arg_provider = () \<rparr>"

text \<open>The sample component with its request awaiting the SDK.\<close>

definition sample_awaiting :: "unit config" where
  "sample_awaiting =
     \<lparr> hooks = sample_wagmi, st = begin_request sample_state, pending = [sample_params] \<rparr>"


text \<open>
  The sample component after two clicks handled before a render, the first request
  resolved, the second rejected, and a render.
\<close>

definition sample_both :: state where
  "sample_both = sample_state\<lparr>permission := Some ''{}'', error := Some ''User rejected''\<rparr>"

definition sample_overlapped :: "unit screen" where
  "sample_overlapped =
     \<lparr> live = \<lparr> hooks = sample_wagmi, st = sample_both, pending = [] \<rparr>,
       rendered = sample_both \<rparr>"

lemmas js_defs =
  ToBoolean_number_def ToBoolean_string_def or_else_def StringToBigInt_def trim_def
  StrWhiteSpaceChar_def NonDecimalIntegerLiteral_def SignedInteger_def parse_digits_def
  digit_of_def BigInt_def

lemmas component_defs =
  initial_state_def address_effect_def chainId_effect_def mount_def rerender_def
  button_disabled_def button_label_def begin_request_def parsedChainId_def
  parsedAllowance_def parsedPeriod_def parse_params_def request_params_def before_await_def
  after_await_def catch_message_def finish_request_def try_block_def handleRequest_def
  permission_panel_def error_panel_def base_id_def DEFAULT_SPENDER_def DEFAULT_TOKEN_def

lemmas sample_defs =
  sample_Number_def sample_String_def sample_env_def sample_wagmi_def
  sample_disconnected_def sample_state_def sample_params_def sample_awaiting_def mounted_def

section \<open>Properties\<close>

subsection \<open>Running the samples\<close>

lemma sample_mount: "mount (sample_env out) sample_wagmi = sample_state"
  by (simp add: js_defs component_defs sample_defs)

lemma sample_parse:
  "parse_params (sample_env out) sample_state = Inr (Finite 8453, 1000000, Finite 30)"
  by (simp add: js_defs component_defs sample_defs)

lemma sample_request_params:
  "request_params sample_state (Finite 8453) 1000000 (Finite 30) () = sample_params"
  by (simp add: component_defs sample_defs)

lemma sample_before_await:
  "before_await (sample_env out) sample_state
     = ([Call_getProvider, Call_requestSpendPermission sample_params], Inr sample_params)"
  using sample_parse [of out] sample_request_params
  by (simp add: before_await_def sample_env_def)

lemma sample_click:
  "fire (sample_env out) Click (mounted (sample_env out) sample_wagmi) = Some sample_awaiting"
  using sample_before_await [of out]
  by (simp add: fire_def mounted_def sample_mount sample_awaiting_def)
     (simp add: button_disabled_def ToBoolean_string_def sample_wagmi_def sample_state_def)

lemma sample_awaiting_reachable: "reachable (sample_env out) sample_awaiting"
  using reachable_fire [OF reachable_mounted sample_click] .

subsection \<open>\<^verbatim>\<open>BigInt\<close> on digit strings\<close>

lemma DecimalDigit_not_space: "DecimalDigit c \<Longrightarrow> \<not> StrWhiteSpaceChar c"
  by (auto simp: DecimalDigit_def StrWhiteSpaceChar_def)

lemma DecimalDigit_digit_of: "DecimalDigit c \<Longrightarrow> digit_of 10 c = Some (of_char c - 48)"
  by (auto simp: DecimalDigit_def digit_of_def Let_def)

lemma digits_value_digits:
  "\<forall>c\<in>set cs. DecimalDigit c \<Longrightarrow> \<exists>n. digits_value 10 cs acc = Some n"
  by (induction cs arbitrary: acc) (simp_all add: DecimalDigit_digit_of)

lemma dropWhile_digits:
  "\<forall>c\<in>set cs. DecimalDigit c \<Longrightarrow> dropWhile StrWhiteSpaceChar cs = cs"
  by (cases cs) (simp_all add: DecimalDigit_not_space)

lemma trim_digits: "\<forall>c\<in>set cs. DecimalDigit c \<Longrightarrow> trim cs = cs"
  by (simp add: trim_def dropWhile_digits)

lemma NonDecimalIntegerLiteral_digits:
  "\<forall>c\<in>set cs. DecimalDigit c \<Longrightarrow> NonDecimalIntegerLiteral cs = None"
  by (auto simp: NonDecimalIntegerLiteral_def DecimalDigit_def split: list.splits)

lemma SignedInteger_digits:
  assumes "cs \<noteq> []" and "\<forall>c\<in>set cs. DecimalDigit c"
  shows "\<exists>n. SignedInteger cs = Some n"
proof -
  obtain c ds where cs: "cs = c # ds"
    using assms(1) by (cases cs) auto
  with assms(2) have "DecimalDigit c"
    by simp
  then have "c \<noteq> CHR ''+''" and "c \<noteq> CHR ''-''"
    by (auto simp: DecimalDigit_def)
  moreover obtain n where "digits_value 10 cs 0 = Some n"
    using digits_value_digits [OF assms(2)] by blast
  ultimately show ?thesis
    using cs by (simp add: SignedInteger_def parse_digits_def)
qed

lemma StringToBigInt_digits:
  assumes "cs \<noteq> []" and "\<forall>c\<in>set cs. DecimalDigit c"
  shows "\<exists>n. StringToBigInt cs = Some n"
  using assms SignedInteger_digits [OF assms]
  by (simp add: StringToBigInt_def trim_digits NonDecimalIntegerLiteral_digits)

subsection \<open>The shape of an invocation\<close>

lemma before_await_calls:
  "before_await E s = (calls, res) \<Longrightarrow>
     (calls = [] \<and> isl res) \<or> (calls = [Call_getProvider] \<and> isl res)
     \<or> (\<exists>ps. calls = [Call_getProvider, Call_requestSpendPermission ps] \<and> res = Inr ps)"
  by (auto simp: before_await_def Let_def split: sum.splits prod.splits)

lemma before_await_one_request:
  "before_await E s = (calls, res) \<Longrightarrow> length (filter is_requestSpendPermission calls) \<le> 1"
  by (drule before_await_calls) (auto simp: is_requestSpendPermission_def)

lemma try_block_one_request:
  "try_block E s = (calls, res) \<Longrightarrow> length (filter is_requestSpendPermission calls) \<le> 1"
  by (cases "before_await E s")
     (auto simp: try_block_def split: sum.splits dest: before_await_one_request)

lemma before_await_reached:
  "parse_params E s = Inr (c, a, d) \<Longrightarrow> getProvider E = Inr prov \<Longrightarrow>
     before_await E s
       = ([Call_getProvider, Call_requestSpendPermission (request_params s c a d prov)],
          Inr (request_params s c a d prov))"
  by (simp add: before_await_def Let_def)

lemma handleRequest_completes:
  "try_block E s = (calls, Some res) \<Longrightarrow>
     handleRequest E s = (calls, Some (finish_request res (begin_request s)))"
  by (simp add: handleRequest_def)

lemma handleRequest_Some:
  "handleRequest E s = (calls, Some s') \<Longrightarrow>
     \<exists>res. try_block E s = (calls, Some res) \<and> s' = finish_request res (begin_request s)"
  by (cases "try_block E s") (auto simp: handleRequest_def split: option.splits)

lemma finish_request_not_loading: "\<not> loading (finish_request res s)"
  by (simp add: finish_request_def split: sum.splits)

subsection \<open>What the events preserve\<close>

lemma rerender_frame:
  "spender (rerender E w w' s) = spender s"
  "token (rerender E w w' s) = token s"
  "allowance (rerender E w w' s) = allowance s"
  "periodInDays (rerender E w w' s) = periodInDays s"
  "permission (rerender E w w' s) = permission s"
  "error (rerender E w w' s) = error s"
  "loading (rerender E w w' s) = loading s"
  by (simp_all add: rerender_def address_effect_def chainId_effect_def Let_def
      split: option.splits)

lemma request_invariant_st:
  assumes "request_invariant c"
    and "loading s' = loading (st c)"
    and "permission s' = permission (st c)"
    and "error s' = error (st c)"
  shows "request_invariant (c\<lparr>st := s'\<rparr>)" and "request_invariant (c\<lparr>hooks := w', st := s'\<rparr>)"
  using assms by (simp_all add: request_invariant_def)

lemma fire_Click_invariant:
  assumes inv: "request_invariant c" and fired: "fire E Click c = Some c'"
  shows "request_invariant c'"
proof -
  from fired have enabled: "\<not> button_disabled (hooks c) (st c)"
    by (simp add: fire_def split: if_splits)
  then have "\<not> loading (st c)"
    by (simp add: button_disabled_def)
  with inv have idle: "pending c = []"
    by (auto simp: request_invariant_def)
  obtain calls res where b: "before_await E (st c) = (calls, res)"
    by (cases "before_await E (st c)")
  show ?thesis
  proof (cases res)
    case (Inl e)
    with fired enabled b
    have "c' = c\<lparr>st := finish_request (Inl e) (begin_request (st c))\<rparr>"
      by (simp add: fire_def)
    with idle show ?thesis
      by (simp add: request_invariant_def finish_request_def begin_request_def)
  next
    case (Inr ps)
    with fired enabled b
    have "c' = c\<lparr>st := begin_request (st c), pending := pending c @ [ps]\<rparr>"
      by (simp add: fire_def)
    with idle show ?thesis
      by (simp add: request_invariant_def begin_request_def)
  qed
qed

lemma fire_Settle_invariant:
  assumes inv: "request_invariant c" and fired: "fire E (Settle i out) c = Some c'"
  shows "request_invariant c'"
proof -
  from fired have i: "i < length (pending c)"
    by (simp add: fire_def split: if_splits)
  with fired obtain res where c': "c' = c\<lparr>st := finish_request res (st c),
      pending := take i (pending c) @ drop (Suc i) (pending c)\<rparr>"
    by (auto simp: fire_def split: option.splits)
  from i inv have one: "length (pending c) = 1" and "i = 0"
    and clear: "permission (st c) = None" "error (st c) = None"
    by (auto simp: request_invariant_def)
  then have "take i (pending c) @ drop (Suc i) (pending c) = []"
    by simp
  with c' clear show ?thesis
    by (cases res) (simp_all add: request_invariant_def finish_request_def)
qed

lemma fire_invariant:
  assumes inv: "request_invariant c" and fired: "fire E ev c = Some c'"
  shows "request_invariant c'"
proof (cases ev)
  case Click
  with inv fired show ?thesis
    by (simp add: fire_Click_invariant)
next
  case (Settle i out)
  with inv fired show ?thesis
    by (simp add: fire_Settle_invariant)
next
  case (Wallet w')
  with fired have "c' = c\<lparr>hooks := w', st := rerender E (hooks c) w' (st c)\<rparr>"
    by (simp add: fire_def)
  with inv show ?thesis
    by (simp add: request_invariant_st rerender_frame)
qed (use inv fired in \<open>auto simp: fire_def request_invariant_def\<close>)

lemma mounted_invariant: "request_invariant (mounted E w)"
  by (simp add: request_invariant_def mounted_def mount_def initial_state_def
      address_effect_def chainId_effect_def split: option.splits)

lemma reachable_invariant: "reachable E c \<Longrightarrow> request_invariant c"
  by (induction rule: reachable.induct) (simp_all add: mounted_invariant fire_invariant)

subsection \<open>Events on a rendered screen\<close>

lemma dispatch_rendered:
  assumes "rendered u = st (live u)" and "dispatch E (Event ev) u = Some u'"
  shows "fire E ev (live u) = Some (live u')"
proof (cases ev)
  case Click
  obtain calls res where b: "before_await E (st (live u)) = (calls, res)"
    by (cases "before_await E (st (live u))")
  from assms Click b show ?thesis
    by (cases res) (auto simp: dispatch_def fire_def split: if_splits)
qed (use assms in \<open>auto simp: dispatch_def split: option.splits\<close>)

lemma sample_first_click:
  "dispatch (sample_env out) (Event Click) (mounted_screen (sample_env out) sample_wagmi)
     = Some \<lparr> live = sample_awaiting, rendered = sample_state \<rparr>"
  using sample_before_await [of out]
  by (simp add: dispatch_def mounted_screen_def mounted_def sample_mount sample_awaiting_def)
     (simp add: button_disabled_def ToBoolean_string_def sample_wagmi_def sample_state_def)

lemma sample_second_click:
  "dispatch (sample_env out) (Event Click) \<lparr> live = sample_awaiting, rendered = sample_state \<rparr>
     = Some \<lparr> live = sample_awaiting\<lparr>pending := [sample_params, sample_params]\<rparr>,
              rendered = sample_state \<rparr>"
  using sample_before_await [of out]
  by (simp add: dispatch_def sample_awaiting_def begin_request_def)
     (simp add: button_disabled_def ToBoolean_string_def sample_wagmi_def sample_state_def)

subsection \<open>The button\<close>

text \<open>
  C9. With the wallet connected and no request loading, the button is still disabled
  while the account field is the empty string: the button is disabled exactly when the
  wallet is not connected, or a request is loading, or the account field is empty, and
  a click on the disabled button does not reach \<^verbatim>\<open>handleRequest\<close>.
\<close>

theorem button_disabled_empty_account:
  "button_disabled w s = (\<not> isConnected w \<or> loading s \<or> account s = [])
   \<and> (isConnected w \<and> \<not> loading s \<and> account s = [] \<longrightarrow>
        button_disabled w s \<and> fire E Click \<lparr> hooks = w, st = s, pending = p \<rparr> = None)"
  by (simp add: button_disabled_def ToBoolean_string_def fire_def)

theorem button_disabled_empty_account_witness:
  "isConnected sample_wagmi \<and> \<not> loading (sample_state\<lparr>account := []\<rparr>)
   \<and> account (sample_state\<lparr>account := []\<rparr>) = []
   \<and> button_disabled sample_wagmi (sample_state\<lparr>account := []\<rparr>)
   \<and> fire (sample_env Pending) Click
        \<lparr> hooks = sample_wagmi, st = sample_state\<lparr>account := []\<rparr>, pending = [] \<rparr> = None"
  using button_disabled_empty_account
    [of sample_wagmi "sample_state\<lparr>account := []\<rparr>" "sample_env Pending" "[]"]
  by (simp add: sample_wagmi_def sample_state_def)

text \<open>
  C6, as the code has it. While the wallet is not connected the button is disabled and a
  click does not reach \<^verbatim>\<open>handleRequest\<close>; its label reads "Connect wallet to continue"
  unless a request is loading, in which case it reads "Requesting...".
\<close>

theorem button_disconnected:
  "\<not> isConnected w \<Longrightarrow>
     button_disabled w s
     \<and> fire E Click \<lparr> hooks = w, st = s, pending = p \<rparr> = None
     \<and> button_label w s
         = (if loading s then ''Requesting...'' else ''Connect wallet to continue'')"
  by (simp add: button_disabled_def button_label_def fire_def)

theorem button_disconnected_witness:
  "\<not> isConnected sample_disconnected
   \<and> button_disabled sample_disconnected sample_state
   \<and> fire (sample_env Pending) Click
        \<lparr> hooks = sample_disconnected, st = sample_state, pending = [] \<rparr> = None
   \<and> button_label sample_disconnected sample_state = ''Connect wallet to continue''"
  using button_disconnected [of sample_disconnected sample_state "sample_env Pending" "[]"]
  by (simp add: sample_disconnected_def sample_state_def)

text \<open>
  C6, as stated, fails: the wallet disconnects while a request is awaiting the SDK, and
  the label of the button reads "Requesting...".
\<close>

theorem button_label_disconnected_counterexample:
  "reachable (sample_env Pending) (sample_awaiting\<lparr>hooks := sample_disconnected\<rparr>)
   \<and> \<not> isConnected (hooks (sample_awaiting\<lparr>hooks := sample_disconnected\<rparr>))
   \<and> button_label (hooks (sample_awaiting\<lparr>hooks := sample_disconnected\<rparr>))
        (st (sample_awaiting\<lparr>hooks := sample_disconnected\<rparr>)) = ''Requesting...''
   \<and> button_label (hooks (sample_awaiting\<lparr>hooks := sample_disconnected\<rparr>))
        (st (sample_awaiting\<lparr>hooks := sample_disconnected\<rparr>)) \<noteq> ''Connect wallet to continue''"
proof -
  have "fire (sample_env Pending) (Wallet sample_disconnected) sample_awaiting
          = Some (sample_awaiting\<lparr>hooks := sample_disconnected\<rparr>)"
    by (simp add: fire_def rerender_def address_effect_def sample_awaiting_def
        sample_wagmi_def sample_disconnected_def)
  from reachable_fire [OF sample_awaiting_reachable this]
  show ?thesis
    by (simp add: sample_awaiting_def sample_disconnected_def button_label_def begin_request_def)
qed

subsection \<open>The outcome of an invocation\<close>




text \<open>
  C2. When the promise of \<^verbatim>\<open>requestSpendPermission\<close> rejects, the value it rejects with
  is thrown inside the \<^verbatim>\<open>try\<close> block; and whenever a value is thrown inside the
  \<^verbatim>\<open>try\<close> block, the invocation completes with the error state set to the message
  of the thrown value when it is an \<^verbatim>\<open>Error\<close> and to "Failed to request spend
  permission" otherwise, the permission state null, and \<^verbatim>\<open>requestSpendPermission\<close>
  called at most once.
\<close>

theorem handleRequest_catch:
  "(parse_params E s = Inr (c, a, d) \<and> getProvider E = Inr prov
      \<and> requestSpendPermission E (request_params s c a d prov) = Rejected err
    \<longrightarrow> try_block E s
          = ([Call_getProvider, Call_requestSpendPermission (request_params s c a d prov)],
             Some (Inl err)))
   \<and> (try_block E s = (calls, Some (Inl err))
    \<longrightarrow> handleRequest E s
          = (calls,
             Some (s\<lparr>loading := False, permission := None,
                     error := Some (case err of
                                      Error_instance m \<Rightarrow> m
                                    | Non_error \<Rightarrow> ''Failed to request spend permission'')\<rparr>))
        \<and> length (filter is_requestSpendPermission calls) \<le> 1)"
proof (intro conjI impI)
  assume h: "parse_params E s = Inr (c, a, d) \<and> getProvider E = Inr prov
      \<and> requestSpendPermission E (request_params s c a d prov) = Rejected err"
  then have "before_await E s
      = ([Call_getProvider, Call_requestSpendPermission (request_params s c a d prov)],
         Inr (request_params s c a d prov))"
    by (simp add: before_await_reached)
  with h show "try_block E s
      = ([Call_getProvider, Call_requestSpendPermission (request_params s c a d prov)],
         Some (Inl err))"
    by (simp add: try_block_def after_await_def)
next
  assume t: "try_block E s = (calls, Some (Inl err))"
  from handleRequest_completes [OF t]
  show "handleRequest E s
          = (calls,
             Some (s\<lparr>loading := False, permission := None,
                     error := Some (case err of
                                      Error_instance m \<Rightarrow> m
                                    | Non_error \<Rightarrow> ''Failed to request spend permission'')\<rparr>))"
    by (simp add: finish_request_def begin_request_def catch_message_def)
  from try_block_one_request [OF t]
  show "length (filter is_requestSpendPermission calls) \<le> 1" .
qed

theorem handleRequest_catch_witness:
  "parse_params (sample_env (Rejected (Error_instance ''User rejected''))) sample_state
     = Inr (Finite 8453, 1000000, Finite 30)
   \<and> requestSpendPermission (sample_env (Rejected (Error_instance ''User rejected'')))
       sample_params = Rejected (Error_instance ''User rejected'')
   \<and> try_block (sample_env (Rejected (Error_instance ''User rejected''))) sample_state
       = ([Call_getProvider, Call_requestSpendPermission sample_params],
          Some (Inl (Error_instance ''User rejected'')))
   \<and> handleRequest (sample_env (Rejected (Error_instance ''User rejected''))) sample_state
       = ([Call_getProvider, Call_requestSpendPermission sample_params],
          Some (sample_state\<lparr>error := Some ''User rejected''\<rparr>))"
proof -
  let ?E = "sample_env (Rejected (Error_instance ''User rejected''))"
  have p: "parse_params ?E sample_state = Inr (Finite 8453, 1000000, Finite 30)"
    by (rule sample_parse)
  have g: "getProvider ?E = Inr ()"
    by (simp add: sample_env_def)
  have r: "requestSpendPermission ?E ps = Rejected (Error_instance ''User rejected'')" for ps
    by (simp add: sample_env_def)
  from handleRequest_catch
    [of ?E sample_state "Finite 8453" 1000000 "Finite 30" "()"
      "Error_instance ''User rejected''"
      "[Call_getProvider, Call_requestSpendPermission sample_params]"]
    p g r
  show ?thesis
    by (simp add: sample_request_params) (simp add: sample_state_def)
qed

text \<open>
  C7. An invocation that completes leaves loading false, so that the button is then
  disabled only by a disconnected wallet or an empty account field; an invocation
  completes whenever its \<^verbatim>\<open>try\<close> block ends, by a thrown value (from the parsing or
  from the SDK) or by a result, and the only invocations that do not complete are those
  whose promise stays pending.
\<close>

theorem handleRequest_finally:
  "(handleRequest E s = (calls, Some s') \<longrightarrow>
      \<not> loading s' \<and> button_disabled w s' = (\<not> isConnected w \<or> account s' = []))
   \<and> (try_block E s = (calls, Some res) \<longrightarrow>
        handleRequest E s = (calls, Some (finish_request res (begin_request s)))
        \<and> \<not> loading (finish_request res (begin_request s)))
   \<and> (snd (handleRequest E s) = None \<longleftrightarrow>
        (\<exists>ps. snd (before_await E s) = Inr ps \<and> requestSpendPermission E ps = Pending))"
proof (intro conjI impI)
  assume "handleRequest E s = (calls, Some s')"
  then obtain res where "s' = finish_request res (begin_request s)"
    by (auto dest: handleRequest_Some)
  then show "\<not> loading s'"
    and "button_disabled w s' = (\<not> isConnected w \<or> account s' = [])"
    by (simp_all add: finish_request_not_loading button_disabled_def ToBoolean_string_def)
next
  assume "try_block E s = (calls, Some res)"
  then show "handleRequest E s = (calls, Some (finish_request res (begin_request s)))"
    by (rule handleRequest_completes)
next
  show "\<not> loading (finish_request res (begin_request s))"
    by (rule finish_request_not_loading)
next
  obtain cs r where b: "before_await E s = (cs, r)"
    by (cases "before_await E s")
  show "snd (handleRequest E s) = None \<longleftrightarrow>
        (\<exists>ps. snd (before_await E s) = Inr ps \<and> requestSpendPermission E ps = Pending)"
  proof (cases r)
    case (Inl e)
    with b show ?thesis
      by (simp add: handleRequest_def try_block_def)
  next
    case (Inr ps)
    with b show ?thesis
      by (cases "requestSpendPermission E ps")
         (simp_all add: handleRequest_def try_block_def after_await_def)
  qed
qed

theorem handleRequest_finally_witness:
  "handleRequest (sample_env (Rejected Non_error)) (sample_state\<lparr>loading := True\<rparr>)
     = ([Call_getProvider, Call_requestSpendPermission sample_params],
        Some (sample_state\<lparr>error := Some ''Failed to request spend permission''\<rparr>))
   \<and> \<not> loading (sample_state\<lparr>error := Some ''Failed to request spend permission''\<rparr>)
   \<and> \<not> button_disabled sample_wagmi
         (sample_state\<lparr>error := Some ''Failed to request spend permission''\<rparr>)"
proof -
  let ?E = "sample_env (Rejected Non_error)"
  let ?s = "sample_state\<lparr>loading := True\<rparr>"
  have "before_await ?E ?s
          = ([Call_getProvider, Call_requestSpendPermission sample_params], Inr sample_params)"
    using sample_before_await [of "Rejected Non_error"]
    by (simp add: js_defs component_defs sample_defs)
  then have t: "try_block ?E ?s
          = ([Call_getProvider, Call_requestSpendPermission sample_params],
             Some (Inl Non_error))"
    by (simp add: try_block_def after_await_def) (simp add: sample_env_def)
  have f: "finish_request (Inl Non_error) (begin_request ?s)
             = sample_state\<lparr>error := Some ''Failed to request spend permission''\<rparr>"
    by (simp add: finish_request_def begin_request_def catch_message_def sample_state_def)
  from handleRequest_finally
    [of ?E ?s "[Call_getProvider, Call_requestSpendPermission sample_params]"
      "sample_state\<lparr>error := Some ''Failed to request spend permission''\<rparr>"
      sample_wagmi "Inl Non_error"] t f
  show ?thesis
    by (simp add: sample_wagmi_def sample_state_def)
qed

text \<open>
  C5, as the code has it. The invocation starts by clearing both display states; its
  success branch changes only permission among the two and its \<^verbatim>\<open>catch\<close> branch only
  error; so after a completed invocation that no other invocation overlaps at most one
  of them is non-null and at most one of the two result panels is rendered. The same
  holds in every configuration the component reaches when each event is handled on a
  screen rendered from the current cells, which is where a click acts as in the
  transition system: the button is then disabled while a request is loading.
\<close>

theorem handleRequest_permission_or_error:
  "permission (begin_request s) = None \<and> error (begin_request s) = None
   \<and> error (finish_request (Inr str) t) = error t
   \<and> permission (finish_request (Inl err) t) = permission t
   \<and> (handleRequest E s = (calls, Some s') \<longrightarrow>
        (permission s' = None \<or> error s' = None)
        \<and> (permission_panel s' = None \<or> error_panel s' = None))
   \<and> (reachable E c \<longrightarrow> permission (st c) = None \<or> error (st c) = None)
   \<and> (rendered u = st (live u) \<and> dispatch E (Event ev) u = Some u' \<longrightarrow>
        fire E ev (live u) = Some (live u'))"
proof (intro conjI impI)
  assume "handleRequest E s = (calls, Some s')"
  then obtain res where "s' = finish_request res (begin_request s)"
    by (auto dest: handleRequest_Some)
  then show "permission s' = None \<or> error s' = None"
    and "permission_panel s' = None \<or> error_panel s' = None"
    by (cases res; simp add: finish_request_def begin_request_def permission_panel_def
        error_panel_def)+
next
  assume "reachable E c"
  then show "permission (st c) = None \<or> error (st c) = None"
    by (auto dest: reachable_invariant simp: request_invariant_def)
next
  assume "rendered u = st (live u) \<and> dispatch E (Event ev) u = Some u'"
  then show "fire E ev (live u) = Some (live u')"
    by (simp add: dispatch_rendered)
qed (simp_all add: begin_request_def finish_request_def)

theorem handleRequest_permission_or_error_witness:
  "handleRequest (sample_env (Resolved ''{}''))
       (sample_state\<lparr>error := Some ''User rejected''\<rparr>)
     = ([Call_getProvider, Call_requestSpendPermission sample_params],
        Some (sample_state\<lparr>permission := Some ''{}''\<rparr>))
   \<and> permission (sample_state\<lparr>permission := Some ''{}''\<rparr>) = Some ''{}''
   \<and> error (sample_state\<lparr>permission := Some ''{}''\<rparr>) = None
   \<and> error_panel (sample_state\<lparr>permission := Some ''{}''\<rparr>) = None
   \<and> reachable (sample_env (Resolved ''{}'')) sample_awaiting
   \<and> permission (st sample_awaiting) = None
   \<and> rendered (mounted_screen (sample_env (Resolved ''{}'')) sample_wagmi)
       = st (live (mounted_screen (sample_env (Resolved ''{}'')) sample_wagmi))
   \<and> dispatch (sample_env (Resolved ''{}'')) (Event Click)
         (mounted_screen (sample_env (Resolved ''{}'')) sample_wagmi)
       = Some \<lparr> live = sample_awaiting, rendered = sample_state \<rparr>
   \<and> fire (sample_env (Resolved ''{}'')) Click
         (live (mounted_screen (sample_env (Resolved ''{}'')) sample_wagmi))
       = Some sample_awaiting"
proof -
  let ?E = "sample_env (Resolved ''{}'')"
  let ?s = "sample_state\<lparr>error := Some ''User rejected''\<rparr>"
  have "before_await ?E ?s
          = ([Call_getProvider, Call_requestSpendPermission sample_params], Inr sample_params)"
    using sample_before_await [of "Resolved ''{}''"]
    by (simp add: js_defs component_defs sample_defs)
  then have "try_block ?E ?s
          = ([Call_getProvider, Call_requestSpendPermission sample_params],
             Some (Inr ''{}''))"
    by (simp add: try_block_def after_await_def) (simp add: sample_env_def)
  then have h: "handleRequest ?E ?s
          = ([Call_getProvider, Call_requestSpendPermission sample_params],
             Some (sample_state\<lparr>permission := Some ''{}''\<rparr>))"
    by (simp add: handleRequest_def finish_request_def begin_request_def sample_state_def)
  have r: "rendered (mounted_screen ?E sample_wagmi) = st (live (mounted_screen ?E sample_wagmi))"
    by (simp add: mounted_screen_def mounted_def)
  have d: "dispatch ?E (Event Click) (mounted_screen ?E sample_wagmi)
             = Some \<lparr> live = sample_awaiting, rendered = sample_state \<rparr>"
    by (rule sample_first_click)
  from handleRequest_permission_or_error
    [where s = ?s and E = ?E
       and calls = "[Call_getProvider, Call_requestSpendPermission sample_params]"
       and s' = "sample_state\<lparr>permission := Some ''{}''\<rparr>" and c = sample_awaiting
       and u = "mounted_screen ?E sample_wagmi" and ev = Click
       and u' = "\<lparr> live = sample_awaiting, rendered = sample_state \<rparr>"] h r d
    sample_awaiting_reachable [of "Resolved ''{}''"]
  show ?thesis
    by (simp add: sample_state_def sample_awaiting_def begin_request_def error_panel_def)
qed

text \<open>
  C5, as stated, fails: two clicks handled before the component renders again start two
  invocations; the first resolves, the second rejects, and after both have completed
  the permission and the error are both non-null and both panels are rendered.
\<close>

theorem overlapping_requests_counterexample:
  "displayed (sample_env Pending) sample_overlapped
   \<and> pending (live sample_overlapped) = []
   \<and> permission (rendered sample_overlapped) = Some ''{}''
   \<and> error (rendered sample_overlapped) = Some ''User rejected''
   \<and> permission_panel (rendered sample_overlapped) = Some ''{}''
   \<and> error_panel (rendered sample_overlapped) = Some ''User rejected''"
proof -
  let ?E = "sample_env Pending"
  let ?u1 = "\<lparr> live = sample_awaiting, rendered = sample_state \<rparr>"
  let ?u2 = "\<lparr> live = sample_awaiting\<lparr>pending := [sample_params, sample_params]\<rparr>,
               rendered = sample_state \<rparr>"
  let ?u3 = "\<lparr> live = \<lparr> hooks = sample_wagmi,
                         st = sample_state\<lparr>permission := Some ''{}''\<rparr>,
                         pending = [sample_params] \<rparr>,
               rendered = sample_state \<rparr>"
  let ?u4 = "\<lparr> live = \<lparr> hooks = sample_wagmi, st = sample_both, pending = [] \<rparr>,
               rendered = sample_state \<rparr>"
  have 1: "dispatch ?E (Event Click) (mounted_screen ?E sample_wagmi) = Some ?u1"
    by (rule sample_first_click)
  have 2: "dispatch ?E (Event Click) ?u1 = Some ?u2"
    by (rule sample_second_click)
  have 3: "dispatch ?E (Event (Settle 0 (Resolved ''{}''))) ?u2 = Some ?u3"
    by (simp add: dispatch_def fire_def after_await_def finish_request_def
        sample_awaiting_def begin_request_def sample_env_def sample_state_def)
  have 4: "dispatch ?E (Event (Settle 0 (Rejected (Error_instance ''User rejected'')))) ?u3
             = Some ?u4"
    by (simp add: dispatch_def fire_def after_await_def finish_request_def catch_message_def
        sample_both_def sample_state_def)
  have 5: "dispatch ?E Render ?u4 = Some sample_overlapped"
    by (simp add: dispatch_def sample_overlapped_def)
  have "displayed ?E sample_overlapped"
    using displayed_dispatch [OF displayed_dispatch [OF displayed_dispatch
      [OF displayed_dispatch [OF displayed_dispatch [OF displayed_mounted 1] 2] 3] 4] 5] .
  then show ?thesis
    by (simp add: sample_overlapped_def sample_both_def sample_state_def
        permission_panel_def error_panel_def ToBoolean_string_def)
qed

subsection \<open>Parsing the form fields\<close>

text \<open>
  C3, as the code has it. The chain id is \<^verbatim>\<open>Number(chainId)\<close>, or 8453 when that is
  \<^verbatim>\<open>NaN\<close> or zero; the period is \<^verbatim>\<open>Number(periodInDays)\<close>, or 0 when that is
  \<^verbatim>\<open>NaN\<close> or zero; neither throws. The allowance is \<open>0n\<close> for the empty string and
  \<^verbatim>\<open>BigInt(allowance)\<close> otherwise, which is an integer for a string of decimal digits
  and throws a \<^verbatim>\<open>SyntaxError\<close> for a string that is no integer literal. Such a throw
  happens inside the \<^verbatim>\<open>try\<close> block: the invocation completes without any call to the
  SDK, showing the message of the error.
\<close>

theorem parse_params_fallbacks:
  "parsedChainId E s
     = (if Number E (chainId s) \<in> {NaN, NegZero, Finite 0} then Finite 8453
        else Number E (chainId s))
   \<and> parsedPeriod E s
     = (if Number E (periodInDays s) \<in> {NaN, NegZero, Finite 0} then Finite 0
        else Number E (periodInDays s))
   \<and> parsedAllowance E s
     = (if allowance s = [] then Inr 0
        else case StringToBigInt (allowance s) of
               Some n \<Rightarrow> Inr n
             | None \<Rightarrow> Inl (Error_instance (SyntaxError_message E (allowance s))))
   \<and> ((\<forall>ch\<in>set (allowance s). DecimalDigit ch) \<longrightarrow> \<not> isl (parsedAllowance E s))
   \<and> parse_params E s
     = (case parsedAllowance E s of
          Inl err \<Rightarrow> Inl err
        | Inr a \<Rightarrow> Inr (parsedChainId E s, a, parsedPeriod E s))
   \<and> (parsedAllowance E s = Inl err \<longrightarrow>
        handleRequest E s
          = ([], Some (s\<lparr>loading := False, permission := None,
                         error := Some (catch_message err)\<rparr>)))"
proof (intro conjI impI)
  show "parsedAllowance E s
     = (if allowance s = [] then Inr 0
        else case StringToBigInt (allowance s) of
               Some n \<Rightarrow> Inr n
             | None \<Rightarrow> Inl (Error_instance (SyntaxError_message E (allowance s))))"
    by (simp add: parsedAllowance_def ToBoolean_string_def BigInt_def split: option.splits)
next
  assume digits: "\<forall>ch\<in>set (allowance s). DecimalDigit ch"
  show "\<not> isl (parsedAllowance E s)"
  proof (cases "allowance s = []")
    case True
    then show ?thesis
      by (simp add: parsedAllowance_def ToBoolean_string_def)
  next
    case False
    from StringToBigInt_digits [OF False digits]
    show ?thesis
      by (auto simp: parsedAllowance_def BigInt_def)
  qed
next
  assume "parsedAllowance E s = Inl err"
  then have "try_block E s = ([], Some (Inl err))"
    by (simp add: try_block_def before_await_def parse_params_def)
  from handleRequest_completes [OF this]
  show "handleRequest E s
          = ([], Some (s\<lparr>loading := False, permission := None,
                         error := Some (catch_message err)\<rparr>))"
    by (simp add: finish_request_def begin_request_def)
next
  show "parse_params E s
     = (case parsedAllowance E s of
          Inl err \<Rightarrow> Inl err
        | Inr a \<Rightarrow> Inr (parsedChainId E s, a, parsedPeriod E s))"
    by (simp add: parse_params_def)
qed (simp_all add: parsedChainId_def parsedPeriod_def or_else_def ToBoolean_number_def
      base_id_def)

theorem parse_params_fallbacks_witness:
  "list_all DecimalDigit (allowance sample_state)
   \<and> \<not> isl (parsedAllowance (sample_env Pending) sample_state)
   \<and> parsedAllowance (sample_env Pending) (sample_state\<lparr>allowance := ''1.5''\<rparr>)
       = Inl (Error_instance ''Cannot convert 1.5 to a BigInt'')
   \<and> handleRequest (sample_env Pending) (sample_state\<lparr>allowance := ''1.5''\<rparr>)
       = ([], Some (sample_state\<lparr>allowance := ''1.5'',
                                 error := Some ''Cannot convert 1.5 to a BigInt''\<rparr>))"
proof -
  have d: "\<forall>ch\<in>set (allowance sample_state). DecimalDigit ch"
    by (simp add: sample_state_def DecimalDigit_def)
  have a: "parsedAllowance (sample_env Pending) (sample_state\<lparr>allowance := ''1.5''\<rparr>)
             = Inl (Error_instance ''Cannot convert 1.5 to a BigInt'')"
    by (simp add: js_defs parsedAllowance_def sample_env_def sample_state_def)
  have "\<not> isl (parsedAllowance (sample_env Pending) sample_state)"
    using parse_params_fallbacks [of "sample_env Pending" sample_state "Error_instance []"] d
    by blast
  moreover
  have "handleRequest (sample_env Pending) (sample_state\<lparr>allowance := ''1.5''\<rparr>)
       = ([], Some (sample_state\<lparr>allowance := ''1.5'', loading := False, permission := None,
            error := Some (catch_message (Error_instance ''Cannot convert 1.5 to a BigInt''))\<rparr>))"
    using parse_params_fallbacks
         [of "sample_env Pending" "sample_state\<lparr>allowance := ''1.5''\<rparr>"
           "Error_instance ''Cannot convert 1.5 to a BigInt''"] a
    by blast
  then have "handleRequest (sample_env Pending) (sample_state\<lparr>allowance := ''1.5''\<rparr>)
       = ([], Some (sample_state\<lparr>allowance := ''1.5'',
                                 error := Some ''Cannot convert 1.5 to a BigInt''\<rparr>))"
    by (simp add: catch_message_def sample_state_def)
  ultimately show ?thesis
    using d a by (simp add: list_all_iff)
qed

text \<open>
  C3, as stated, fails: with "1.5" in the allowance field the parsing throws.
\<close>

theorem parse_params_throws_counterexample:
  "isl (parse_params (sample_env Pending) (sample_state\<lparr>allowance := ''1.5''\<rparr>))
   \<and> StringToBigInt ''1.5'' = None"
  by (simp add: js_defs parse_params_def parsedAllowance_def sample_env_def sample_state_def)

subsection \<open>The effects\<close>

text \<open>
  C8. When a render finds an address different from the previous render's and that
  address is a non-empty string, the account field becomes that address, whatever it
  held; when a render finds a connected chain id different from the previous render's
  and that id is truthy, the chain id field becomes its string; a change of what the
  wallet hooks return leaves the spender, token, allowance and period fields as they
  were. The hooks' address has the type \<^verbatim>\<open>`0x${string}` | undefined\<close>, so a defined
  address is never the empty string.
\<close>

theorem rerender_overwrites:
  "(address w' \<noteq> address w \<and> address w' = Some a \<and> a \<noteq> [] \<longrightarrow>
      account (rerender E w w' s) = a)
   \<and> (connectedChainId w' \<noteq> connectedChainId w \<and> ToBoolean_number (connectedChainId w') \<longrightarrow>
      chainId (rerender E w w' s) = String E (connectedChainId w'))
   \<and> spender (rerender E w w' s) = spender s
   \<and> token (rerender E w w' s) = token s
   \<and> allowance (rerender E w w' s) = allowance s
   \<and> periodInDays (rerender E w w' s) = periodInDays s
   \<and> fire E (Wallet w') c = Some (c\<lparr>hooks := w', st := rerender E (hooks c) w' (st c)\<rparr>)"
  by (simp add: rerender_frame fire_def)
     (auto simp: rerender_def address_effect_def chainId_effect_def ToBoolean_string_def)

theorem rerender_overwrites_witness:
  "address (sample_wagmi\<lparr>connectedChainId := Finite 1\<rparr>) \<noteq> address sample_disconnected
   \<and> address (sample_wagmi\<lparr>connectedChainId := Finite 1\<rparr>) = Some ''0xabc''
   \<and> connectedChainId (sample_wagmi\<lparr>connectedChainId := Finite 1\<rparr>)
       \<noteq> connectedChainId sample_disconnected
   \<and> ToBoolean_number (connectedChainId (sample_wagmi\<lparr>connectedChainId := Finite 1\<rparr>))
   \<and> rerender (sample_env Pending) sample_disconnected
       (sample_wagmi\<lparr>connectedChainId := Finite 1\<rparr>) (sample_state\<lparr>account := ''0xedited''\<rparr>)
       = sample_state\<lparr>chainId := ''1''\<rparr>"
proof -
  let ?w' = "sample_wagmi\<lparr>connectedChainId := Finite 1\<rparr>"
  let ?s = "sample_state\<lparr>account := ''0xedited''\<rparr>"
  have h: "address ?w' \<noteq> address sample_disconnected" "address ?w' = Some ''0xabc''"
    "connectedChainId ?w' \<noteq> connectedChainId sample_disconnected"
    "ToBoolean_number (connectedChainId ?w')"
    by (simp_all add: sample_wagmi_def sample_disconnected_def ToBoolean_number_def)
  have e: "rerender (sample_env Pending) sample_disconnected ?w' ?s = r \<longleftrightarrow>
      account r = account (rerender (sample_env Pending) sample_disconnected ?w' ?s)
      \<and> chainId r = chainId (rerender (sample_env Pending) sample_disconnected ?w' ?s)
      \<and> spender r = spender (rerender (sample_env Pending) sample_disconnected ?w' ?s)
      \<and> token r = token (rerender (sample_env Pending) sample_disconnected ?w' ?s)
      \<and> allowance r = allowance (rerender (sample_env Pending) sample_disconnected ?w' ?s)
      \<and> periodInDays r
          = periodInDays (rerender (sample_env Pending) sample_disconnected ?w' ?s)
      \<and> permission r = permission (rerender (sample_env Pending) sample_disconnected ?w' ?s)
      \<and> error r = error (rerender (sample_env Pending) sample_disconnected ?w' ?s)
      \<and> loading r = loading (rerender (sample_env Pending) sample_disconnected ?w' ?s)" for r
    by (cases r; cases "rerender (sample_env Pending) sample_disconnected ?w' ?s") auto
  from rerender_overwrites
    [of ?w' sample_disconnected "''0xabc''" "sample_env Pending" ?s
      "mounted (sample_env Pending) sample_disconnected"] h
  show ?thesis
    by (simp add: e rerender_frame)
       (simp add: sample_state_def sample_env_def sample_String_def sample_wagmi_def)
qed

subsection \<open>One request at a time\<close>

text \<open>
  C4. In every configuration the component can reach, at most one call of
  \<^verbatim>\<open>requestSpendPermission\<close> has started and not settled; while one is pending, loading
  is true, the button is disabled and a click does not reach \<^verbatim>\<open>handleRequest\<close>; and a
  click that does reach it finds no call pending and leaves at most one, with loading
  true.
\<close>

theorem one_request_in_flight:
  assumes "reachable E c"
  shows "length (pending c) \<le> 1
         \<and> (pending c \<noteq> [] \<longrightarrow>
              loading (st c) \<and> button_disabled (hooks c) (st c) \<and> fire E Click c = None)
         \<and> (fire E Click c = Some c' \<longrightarrow>
              pending c = [] \<and> length (pending c') \<le> 1
              \<and> (pending c' \<noteq> [] \<longrightarrow> loading (st c')))"
proof -
  from assms have inv: "request_invariant c"
    by (rule reachable_invariant)
  have busy: "loading (st c) \<and> button_disabled (hooks c) (st c) \<and> fire E Click c = None"
    if "pending c \<noteq> []"
    using inv that by (auto simp: request_invariant_def button_disabled_def fire_def)
  have "pending c = [] \<and> length (pending c') \<le> 1 \<and> (pending c' \<noteq> [] \<longrightarrow> loading (st c'))"
    if f: "fire E Click c = Some c'"
  proof -
    from busy f have "pending c = []"
      by (cases "pending c = []") auto
    moreover from fire_Click_invariant [OF inv f] have "request_invariant c'" .
    ultimately show ?thesis
      by (auto simp: request_invariant_def)
  qed
  with inv busy show ?thesis
    by (auto simp: request_invariant_def)
qed

theorem one_request_in_flight_witness:
  "reachable (sample_env Pending) sample_awaiting
   \<and> pending sample_awaiting = [sample_params]
   \<and> loading (st sample_awaiting)
   \<and> button_disabled (hooks sample_awaiting) (st sample_awaiting)
   \<and> fire (sample_env Pending) Click sample_awaiting = None
   \<and> fire (sample_env Pending) Click (mounted (sample_env Pending) sample_wagmi)
       = Some sample_awaiting"
  using one_request_in_flight [OF sample_awaiting_reachable, of Pending sample_awaiting]
    one_request_in_flight [OF reachable_mounted, of "sample_env Pending" sample_wagmi
      sample_awaiting]
    sample_awaiting_reachable [of Pending] sample_click [of Pending]
  by (simp add: sample_awaiting_def)

end
